theory Spec2Isabelle
  imports Main "HOL-Library.Word"
begin

section \<open>The provider registrar of identity/registry/provider\_registrar.go\<close>

text \<open>
  The registrar consumes service-status events from a queue and, for every event of a
  running service whose provider is not known to be registered, drives the pipeline
  status check, eligibility check, legacy-registry lookup, submission. The collaborators
  (chain gateway, beneficiary store) are interfaces in the source; here they are the fields
  of the record \<open>deps\<close>, functions over an abstract world \<open>'w\<close> that they may read and change.
  Every call of a collaborator, every goroutine launched and every close of the shutdown
  channel is appended to a trace, so that "no submission call occurs" is a statement about
  the trace. Log output is not modelled.
\<close>

subsection \<open>Data\<close>

text \<open>Go's \<open>int64\<close>, \<open>int\<close> (taken at 64 bits) and \<open>time.Duration\<close>.\<close>

type_synonym int64 = "64 word"
type_synonym go_int = "64 word"
type_synonym duration = "64 word"

text \<open>\<open>common.Address\<close> is an array of 20 bytes; \<open>Bytes\<close> lists them, first byte first.\<close>

type_synonym common_Address = "160 word"

definition Bytes :: "common_Address \<Rightarrow> 8 word list" where
  "Bytes a = map (\<lambda>i. ucast (drop_bit (8 * (19 - i)) a)) [0..<20]"

record Identity =
  Address :: string

text \<open>
  Go's \<open>error\<close> values: those the collaborators return, \<open>errors.Wrap(err, msg)\<close>, and
  \<open>fmt.Errorf("could not get registry address for chain %v: %w", chain, err)\<close>.
\<close>

datatype error =
    External string
  | Wrap error string
  | RegistryAddressErrorf int64 error

text \<open>
  Modelled from the spec: the declaration of \<open>RegistrationStatus\<close> is not among the
  sources; the spec's data model gives the enumeration Registered, NotRegistered. The
  code only tells \<open>Registered\<close> from everything else.
\<close>

datatype RegistrationStatus = Registered | NotRegistered

text \<open>
  Modelled from the spec: the constant \<open>servicestate.Running\<close> is not among the sources;
  the spec gives the literal "Running".
\<close>

definition Running :: string where
  "Running = ''Running''"

text \<open>The two fields of \<open>servicestate.AppEventServiceStatus\<close> that the registrar reads.\<close>

record AppEventServiceStatus =
  ProviderID :: string
  Status :: string

record queuedEvent =
  event :: AppEventServiceStatus
  retries :: go_int

record ProviderRegistrarConfig =
  IsTestnet3 :: bool
  MaxRetries :: go_int
  DelayBetweenRetries :: duration

text \<open>
  What the registrar holds and never changes: the five collaborator interfaces (a Go call
  returning \<open>(value, error)\<close> returns the pair here, \<open>None\<close> for a nil error), the
  configuration, the three chain ids read with \<open>config.GetInt64\<close>, and the library
  functions whose code is outside the repository: \<open>identity.FromAddress\<close>,
  \<open>Identity.ToCommonAddress\<close>, \<open>common.Address.Hex\<close> and \<open>bytes.EqualFold\<close>.
\<close>

record 'w deps =
  GetRegistrationStatus :: "int64 \<Rightarrow> Identity \<Rightarrow> 'w \<Rightarrow> (RegistrationStatus \<times> error option) \<times> 'w"
  RegisterIdentity :: "string \<Rightarrow> int \<Rightarrow> int option \<Rightarrow> string \<Rightarrow> int64 \<Rightarrow> string option \<Rightarrow> 'w \<Rightarrow> error option \<times> 'w"
  CheckIfRegistrationBountyEligible :: "Identity \<Rightarrow> 'w \<Rightarrow> (bool \<times> error option) \<times> 'w"
  GetRegistryAddress :: "int64 \<Rightarrow> 'w \<Rightarrow> (common_Address \<times> error option) \<times> 'w"
  GetChannelAddress :: "int64 \<Rightarrow> Identity \<Rightarrow> 'w \<Rightarrow> (common_Address \<times> error option) \<times> 'w"
  Save :: "string \<Rightarrow> string \<Rightarrow> 'w \<Rightarrow> error option \<times> 'w"
  GetBeneficiary :: "int64 \<Rightarrow> common_Address \<Rightarrow> common_Address \<Rightarrow> 'w \<Rightarrow> (common_Address \<times> error option) \<times> 'w"
  cfg :: ProviderRegistrarConfig
  FlagChainID :: int64
  FlagChain1ChainID :: int64
  FlagChain2ChainID :: int64
  FromAddress :: "string \<Rightarrow> Identity"
  ToCommonAddress :: "Identity \<Rightarrow> common_Address"
  Hex :: "common_Address \<Rightarrow> string"
  EqualFold :: "8 word list \<Rightarrow> 8 word list \<Rightarrow> bool"

text \<open>What the registrar does to the outside, in the order it does it.\<close>

datatype effect =
    GetRegistrationStatusCall int64 Identity
  | CheckIfRegistrationBountyEligibleCall Identity
  | GetRegistryAddressCall int64
  | GetBeneficiaryCall int64 common_Address common_Address
  | GetChannelAddressCall int64 Identity
  | RegisterIdentityCall string int "int option" string int64 "string option"
  | SaveCall string string
  | GoDelayedRequeue queuedEvent
  | CloseStopChan

datatype chan = Open | Closed

text \<open>
  The mutable part of \<open>ProviderRegistrar\<close>: the latch of \<open>sync.Once\<close>, the shutdown
  channel, the set of identities known to be registered (a \<open>map[string]struct{}\<close>); with
  it the world of the collaborators and the trace.
\<close>

record 'w ProviderRegistrar =
  once :: bool
  stopChan :: chan
  registeredIdentities :: "string set"
  world :: 'w
  trace :: "effect list"

definition NewProviderRegistrar :: "'w \<Rightarrow> 'w ProviderRegistrar" where
  "NewProviderRegistrar w =
     \<lparr>once = False, stopChan = Open, registeredIdentities = {}, world = w, trace = []\<rparr>"

subsection \<open>Calls of the collaborators\<close>

definition record_call :: "effect \<Rightarrow> ('w \<Rightarrow> 'r \<times> 'w) \<Rightarrow> 'w ProviderRegistrar \<Rightarrow> 'r \<times> 'w ProviderRegistrar" where
  "record_call c f s =
     (case f (world s) of (r, w') \<Rightarrow> (r, s\<lparr>world := w', trace := trace s @ [c]\<rparr>))"

definition l2chainID :: "'w deps \<Rightarrow> int64" where
  "l2chainID d = FlagChain2ChainID d"

definition l1chainID :: "'w deps \<Rightarrow> int64" where
  "l1chainID d = FlagChain1ChainID d"

definition chainID :: "'w deps \<Rightarrow> int64" where
  "chainID d = FlagChainID d"

subsection \<open>Admission\<close>

definition consumeServiceEvent :: "AppEventServiceStatus \<Rightarrow> queuedEvent" where
  "consumeServiceEvent ev = \<lparr>event = ev, retries = 0\<rparr>"

definition needsHandling :: "'w ProviderRegistrar \<Rightarrow> queuedEvent \<Rightarrow> bool" where
  "needsHandling pr qe =
     (if Status (event qe) \<noteq> Running then False
      else if ProviderID (event qe) \<in> registeredIdentities pr then False
      else True)"

subsection \<open>The pipeline\<close>

definition newRegistryAddress :: common_Address where
  "newRegistryAddress = 0xDFAB03C9fbDbef66dA105B88776B35bfd7743D39"

definition oldRegistryAddress :: common_Address where
  "oldRegistryAddress = 0x15B1281F4e58215b2c3243d864BdF8b9ddDc0DA2"

definition zeroAddress :: common_Address where
  "zeroAddress = 0x0000000000000000000000000000000000000000"

definition isZeroAddress :: "'w deps \<Rightarrow> common_Address \<Rightarrow> bool" where
  "isZeroAddress d a = EqualFold d (Bytes a) (Bytes zeroAddress)"

definition getBeneficiaryFromOldRegistry ::
  "'w deps \<Rightarrow> Identity \<Rightarrow> 'w ProviderRegistrar \<Rightarrow> (common_Address \<times> error option) \<times> 'w ProviderRegistrar" where
  "getBeneficiaryFromOldRegistry d ident s =
     (case record_call (GetRegistryAddressCall (l1chainID d)) (GetRegistryAddress d (l1chainID d)) s of
        ((registryAddress, err), s1) \<Rightarrow>
          (case err of
             Some e \<Rightarrow> ((0, Some (RegistryAddressErrorf (l1chainID d) e)), s1)
           | None \<Rightarrow>
               if EqualFold d (Bytes registryAddress) (Bytes newRegistryAddress)
               then (case record_call (GetBeneficiaryCall 5 oldRegistryAddress (ToCommonAddress d ident))
                            (GetBeneficiary d 5 oldRegistryAddress (ToCommonAddress d ident)) s1 of
                       ((benef, err'), s2) \<Rightarrow> ((benef, None), s2))
               else ((0, None), s1)))"

definition registerIdentity ::
  "'w deps \<Rightarrow> queuedEvent \<Rightarrow> Identity \<Rightarrow> common_Address \<Rightarrow> 'w ProviderRegistrar \<Rightarrow> error option \<times> 'w ProviderRegistrar" where
  "registerIdentity d qe ident benef s =
     (if isZeroAddress d benef then (None, s)
      else
        (case (if chainID d = l2chainID d
               then record_call (GetChannelAddressCall (chainID d) ident) (GetChannelAddress d (chainID d) ident) s
               else ((benef, None), s)) of
           ((settleBeneficiary, Some e), s1) \<Rightarrow> (Some e, s1)
         | ((settleBeneficiary, None), s1) \<Rightarrow>
             (case record_call
                     (RegisterIdentityCall (ProviderID (event qe)) 0 None (Hex d settleBeneficiary) (chainID d) None)
                     (RegisterIdentity d (ProviderID (event qe)) 0 None (Hex d settleBeneficiary) (chainID d) None) s1 of
                (Some e, s2) \<Rightarrow> (Some (Wrap e ''could not register identity on BC''), s2)
              | (None, s2) \<Rightarrow>
                  (let s3 = (if chainID d = l2chainID d
                             then snd (record_call (SaveCall (Address ident) (Hex d benef))
                                         (Save d (Address ident) (Hex d benef)) s2)
                             else s2)
                   in (None, s3\<lparr>registeredIdentities := insert (ProviderID (event qe)) (registeredIdentities s3)\<rparr>)))))"

definition registerIdentityIfEligible ::
  "'w deps \<Rightarrow> queuedEvent \<Rightarrow> 'w ProviderRegistrar \<Rightarrow> error option \<times> 'w ProviderRegistrar" where
  "registerIdentityIfEligible d qe s =
     (let ident = FromAddress d (ProviderID (event qe));
          migrate = (\<lambda>s1.
            case getBeneficiaryFromOldRegistry d ident s1 of
              ((benef, Some e), s2) \<Rightarrow> (Some e, s2)
            | ((benef, None), s2) \<Rightarrow> registerIdentity d qe ident benef s2)
      in if \<not> IsTestnet3 (cfg d)
         then (case record_call (CheckIfRegistrationBountyEligibleCall ident)
                      (CheckIfRegistrationBountyEligible d ident) s of
                 ((eligible, Some e), s1) \<Rightarrow>
                   (Some (Wrap e ''could not check eligibility for auto-registration''), s1)
               | ((eligible, None), s1) \<Rightarrow> if \<not> eligible then (None, s1) else migrate s1)
         else migrate s)"

definition handleEvent ::
  "'w deps \<Rightarrow> queuedEvent \<Rightarrow> 'w ProviderRegistrar \<Rightarrow> error option \<times> 'w ProviderRegistrar" where
  "handleEvent d qe s =
     (case record_call (GetRegistrationStatusCall (chainID d) (FromAddress d (ProviderID (event qe))))
             (GetRegistrationStatus d (chainID d) (FromAddress d (ProviderID (event qe)))) s of
        ((registered, Some e), s1) \<Rightarrow> (Some (Wrap e ''could not check registration status on BC''), s1)
      | ((registered, None), s1) \<Rightarrow>
          (case registered of
             Registered \<Rightarrow>
               (None, s1\<lparr>registeredIdentities := insert (ProviderID (event qe)) (registeredIdentities s1)\<rparr>)
           | _ \<Rightarrow> registerIdentityIfEligible d qe s1))"

subsection \<open>Retries\<close>

text \<open>
  \<open>go pr.delayedRequeue(qe)\<close> launches a goroutine; the launch is an effect in the trace,
  and what the goroutine does is \<open>delayedRequeue\<close> below. The comparison of the two
  \<open>int\<close>s is signed.
\<close>

definition handleEventWithRetries ::
  "'w deps \<Rightarrow> queuedEvent \<Rightarrow> 'w ProviderRegistrar \<Rightarrow> error option \<times> 'w ProviderRegistrar" where
  "handleEventWithRetries d qe s =
     (case handleEvent d qe s of
        (None, s1) \<Rightarrow> (None, s1)
      | (Some err, s1) \<Rightarrow>
          if word_sless (retries qe) (MaxRetries (cfg d))
          then (None, s1\<lparr>trace := trace s1 @ [GoDelayedRequeue (qe\<lparr>retries := retries qe + 1\<rparr>)]\<rparr>)
          else (Some (Wrap err ''max attempts reached for provider registration''), s1))"

text \<open>
  The goroutine waits in a \<open>select\<close> on the shutdown channel and on a timer of
  \<open>DelayBetweenRetries\<close>; which of the two fires first is the scheduler's choice and an
  argument here. Time is not modelled: the delay is carried in the outcome.
\<close>

datatype race = StopChanFirst | TimerFirst

datatype requeue = Dropped | SentAfter duration queuedEvent

definition delayedRequeue :: "'w deps \<Rightarrow> queuedEvent \<Rightarrow> race \<Rightarrow> requeue" where
  "delayedRequeue d qe r =
     (case r of
        StopChanFirst \<Rightarrow> Dropped
      | TimerFirst \<Rightarrow> SentAfter (DelayBetweenRetries (cfg d)) qe)"

subsection \<open>The worker loop\<close>

text \<open>
  Each turn of the loop blocks in a \<open>select\<close> on the shutdown channel and the queue. The
  loop is run on the list of the cases the \<open>select\<close> takes, turn by turn; once the list
  is used up the worker is blocked in the \<open>select\<close>. A receive from the shutdown
  channel completes only once the channel is closed. The \<open>break\<close> after a rejected event
  leaves the \<open>select\<close>, not the loop.
\<close>

datatype select_case = StopChanCase | QueueCase queuedEvent

datatype loop_result = Returned "error option" | Blocked

fun start :: "'w deps \<Rightarrow> select_case list \<Rightarrow> 'w ProviderRegistrar \<Rightarrow> loop_result \<times> 'w ProviderRegistrar" where
  "start d [] s = (Blocked, s)"
| "start d (StopChanCase # rest) s =
     (if stopChan s = Closed then (Returned None, s) else (Blocked, s))"
| "start d (QueueCase ev # rest) s =
     (if \<not> needsHandling s ev then start d rest s
      else (case handleEventWithRetries d ev s of
              (Some err, s1) \<Rightarrow> (Returned (Some err), s1)
            | (None, s1) \<Rightarrow> start d rest s1))"

subsection \<open>Shutdown\<close>

text \<open>
  Closing a closed channel panics. \<open>sync.Once.Do\<close> runs its argument on the first call
  only; it is taken as one atomic step, which is what the library guarantees to concurrent
  callers, so that concurrent calls of \<open>stop\<close> are calls in some order.
\<close>

datatype panic = CloseOfClosedChannel

definition close_chan :: "chan \<Rightarrow> panic + chan" where
  "close_chan c = (case c of Open \<Rightarrow> Inr Closed | Closed \<Rightarrow> Inl CloseOfClosedChannel)"

definition stop :: "'w ProviderRegistrar \<Rightarrow> panic + 'w ProviderRegistrar" where
  "stop s =
     (if once s then Inr s
      else (case close_chan (stopChan s) of
              Inl p \<Rightarrow> Inl p
            | Inr c \<Rightarrow> Inr (s\<lparr>once := True, stopChan := c, trace := trace s @ [CloseStopChan]\<rparr>)))"

fun stops :: "nat \<Rightarrow> 'w ProviderRegistrar \<Rightarrow> panic + 'w ProviderRegistrar" where
  "stops 0 s = Inr s"
| "stops (Suc n) s = (case stop s of Inl p \<Rightarrow> Inl p | Inr s1 \<Rightarrow> stops n s1)"

subsection \<open>Reading the trace\<close>

fun isEligibilityCheck :: "effect \<Rightarrow> bool" where
  "isEligibilityCheck (CheckIfRegistrationBountyEligibleCall i) = True"
| "isEligibilityCheck _ = False"

fun isGoroutine :: "effect \<Rightarrow> bool" where
  "isGoroutine (GoDelayedRequeue q) = True"
| "isGoroutine _ = False"

fun isCall :: "effect \<Rightarrow> bool" where
  "isCall (GoDelayedRequeue q) = False"
| "isCall CloseStopChan = False"
| "isCall _ = True"

definition closes :: "'w ProviderRegistrar \<Rightarrow> nat" where
  "closes s = length (filter (\<lambda>e. e = CloseStopChan) (trace s))"

text \<open>
  The states the registrar can be in: as constructed, after a run of the worker loop
  (\<open>handleNodeStartupEvents\<close> calls \<open>start\<close> on every Started event), after a call of
  \<open>stop\<close> that did not panic.
\<close>

inductive reachable :: "'w deps \<Rightarrow> 'w ProviderRegistrar \<Rightarrow> bool" for d :: "'w deps" where
  constructed: "reachable d (NewProviderRegistrar w)"
| worked: "reachable d s \<Longrightarrow> start d xs s = (r, s') \<Longrightarrow> reachable d s'"
| stopped: "reachable d s \<Longrightarrow> stop s = Inr s' \<Longrightarrow> reachable d s'"

text \<open>
  A queued event and the copies of it that its first \<open>n - 1\<close> failed attempts hand to
  \<open>delayedRequeue\<close>: the retry count goes up by one each time.
\<close>

definition requeued :: "queuedEvent \<Rightarrow> nat \<Rightarrow> queuedEvent list" where
  "requeued qe n = map (\<lambda>k. qe\<lparr>retries := retries qe + of_nat k\<rparr>) [0..<n]"

subsection \<open>Test doubles\<close>

text \<open>
  Collaborators for running the model on concrete inputs, after the mocks a test of the
  registrar would use. The world is the number of status checks that are still to fail.
  The chain is the settlement chain; the registry of the legacy chain is the new one, and
  the old registry holds a beneficiary. \<open>bytes.EqualFold\<close> is stood in for by equality of
  the bytes, with which it agrees on equal inputs and on the comparisons with the zero
  address made below.
\<close>

definition hexDigit :: "nat \<Rightarrow> char" where
  "hexDigit n = ''0123456789abcdef'' ! n"

definition fakeHex :: "common_Address \<Rightarrow> string" where
  "fakeHex a = ''0x'' @ concat (map (\<lambda>b. [hexDigit (unat b div 16), hexDigit (unat b mod 16)]) (Bytes a))"

definition fakeBeneficiary :: common_Address where
  "fakeBeneficiary = 0xB0"

definition fakeChannel :: common_Address where
  "fakeChannel = 0xC0"

definition fakeDeps :: "nat deps" where
  "fakeDeps =
     \<lparr>GetRegistrationStatus = (\<lambda>c i w.
        if 0 < w then ((NotRegistered, Some (External ''rpc unavailable'')), w - 1)
        else ((NotRegistered, None), w)),
      RegisterIdentity = (\<lambda>i stake fee b c r w. (None, w)),
      CheckIfRegistrationBountyEligible = (\<lambda>i w. ((True, None), w)),
      GetRegistryAddress = (\<lambda>c w. ((newRegistryAddress, None), w)),
      GetChannelAddress = (\<lambda>c i w. ((fakeChannel, None), w)),
      Save = (\<lambda>i b w. (None, w)),
      GetBeneficiary = (\<lambda>c r i w. ((fakeBeneficiary, None), w)),
      cfg = \<lparr>IsTestnet3 = False, MaxRetries = 2, DelayBetweenRetries = 10\<rparr>,
      FlagChainID = 137,
      FlagChain1ChainID = 5,
      FlagChain2ChainID = 137,
      FromAddress = (\<lambda>a. \<lparr>Address = a\<rparr>),
      ToCommonAddress = (\<lambda>i. 0x1D),
      Hex = fakeHex,
      EqualFold = (\<lambda>a b. a = b)\<rparr>"

definition fakeEvent :: queuedEvent where
  "fakeEvent = consumeServiceEvent \<lparr>ProviderID = ''0xprovider'', Status = ''Running''\<rparr>"

definition noRetries :: "nat deps" where
  "noRetries = fakeDeps\<lparr>cfg := \<lparr>IsTestnet3 = False, MaxRetries = 0, DelayBetweenRetries = 10\<rparr>\<rparr>"

definition noChannel :: "nat deps" where
  "noChannel = fakeDeps\<lparr>GetChannelAddress := \<lambda>c i w. ((0, Some (External ''no channel'')), w)\<rparr>"

definition noSubmission :: "nat deps" where
  "noSubmission = fakeDeps\<lparr>RegisterIdentity := \<lambda>i stake fee b c r w. (Some (External ''tx rejected''), w)\<rparr>"

definition testnet3 :: "nat deps" where
  "testnet3 = fakeDeps\<lparr>cfg := \<lparr>IsTestnet3 = True, MaxRetries = 2, DelayBetweenRetries = 10\<rparr>\<rparr>"

definition ineligible :: "nat deps" where
  "ineligible = fakeDeps\<lparr>CheckIfRegistrationBountyEligible := \<lambda>i w. ((False, None), w)\<rparr>"

definition noRegistry :: "nat deps" where
  "noRegistry = fakeDeps\<lparr>GetRegistryAddress := \<lambda>c w. ((0, Some (External ''no registry'')), w)\<rparr>"

definition failedRead :: "nat deps" where
  "failedRead = fakeDeps\<lparr>GetBeneficiary := \<lambda>c r i w. ((0, Some (External ''call reverted'')), w)\<rparr>"

definition staleRead :: "nat deps" where
  "staleRead = fakeDeps\<lparr>GetBeneficiary := \<lambda>c r i w. ((fakeBeneficiary, Some (External ''call reverted'')), w)\<rparr>"

section \<open>Properties\<close>

lemma record_call_simps [simp]:
  "fst (record_call c f s) = fst (f (world s))"
  "world (snd (record_call c f s)) = snd (f (world s))"
  "trace (snd (record_call c f s)) = trace s @ [c]"
  "registeredIdentities (snd (record_call c f s)) = registeredIdentities s"
  "once (snd (record_call c f s)) = once s"
  "stopChan (snd (record_call c f s)) = stopChan s"
  by (simp_all add: record_call_def split_def)

lemma record_call_eq:
  "f (world s) = (r, w') \<Longrightarrow> record_call c f s = (r, s\<lparr>world := w', trace := trace s @ [c]\<rparr>)"
  by (simp add: record_call_def)

subsection \<open>What the pipeline leaves alone\<close>

lemma getBeneficiaryFromOldRegistry_filter:
  assumes "\<And>e. isCall e \<Longrightarrow> \<not> P e"
  shows "filter P (trace (snd (getBeneficiaryFromOldRegistry d i s))) = filter P (trace s)"
  by (simp add: getBeneficiaryFromOldRegistry_def split_def assms split: option.splits)

lemma registerIdentity_filter:
  assumes "\<And>e. isCall e \<Longrightarrow> \<not> P e"
  shows "filter P (trace (snd (registerIdentity d qe i b s))) = filter P (trace s)"
  by (simp add: registerIdentity_def split_def Let_def assms split: option.splits)

lemma registerIdentityIfEligible_filter:
  assumes "\<And>e. isCall e \<Longrightarrow> \<not> P e"
  shows "filter P (trace (snd (registerIdentityIfEligible d qe s))) = filter P (trace s)"
  by (simp add: registerIdentityIfEligible_def split_def Let_def assms
        registerIdentity_filter [of P, OF assms] getBeneficiaryFromOldRegistry_filter [of P, OF assms]
        split: option.splits)

lemma handleEvent_filter:
  assumes "\<And>e. isCall e \<Longrightarrow> \<not> P e"
  shows "filter P (trace (snd (handleEvent d qe s))) = filter P (trace s)"
  by (simp add: handleEvent_def split_def assms registerIdentityIfEligible_filter [of P, OF assms]
        split: option.splits RegistrationStatus.splits)

lemma getBeneficiaryFromOldRegistry_latch:
  "once (snd (getBeneficiaryFromOldRegistry d i s)) = once s"
  "stopChan (snd (getBeneficiaryFromOldRegistry d i s)) = stopChan s"
  "registeredIdentities (snd (getBeneficiaryFromOldRegistry d i s)) = registeredIdentities s"
  by (simp_all add: getBeneficiaryFromOldRegistry_def split_def split: option.splits)

lemma registerIdentity_latch:
  "once (snd (registerIdentity d qe i b s)) = once s"
  "stopChan (snd (registerIdentity d qe i b s)) = stopChan s"
  by (simp_all add: registerIdentity_def split_def Let_def split: option.splits)

lemma registerIdentityIfEligible_latch:
  "once (snd (registerIdentityIfEligible d qe s)) = once s"
  "stopChan (snd (registerIdentityIfEligible d qe s)) = stopChan s"
  by (simp_all add: registerIdentityIfEligible_def split_def Let_def registerIdentity_latch
        getBeneficiaryFromOldRegistry_latch split: option.splits)

lemma handleEvent_latch:
  "once (snd (handleEvent d qe s)) = once s"
  "stopChan (snd (handleEvent d qe s)) = stopChan s"
  by (simp_all add: handleEvent_def split_def registerIdentityIfEligible_latch
        split: option.splits RegistrationStatus.splits)

lemma handleEvent_closes: "closes (snd (handleEvent d qe s)) = closes s"
proof -
  have "filter (\<lambda>e. e = CloseStopChan) (trace (snd (handleEvent d qe s)))
          = filter (\<lambda>e. e = CloseStopChan) (trace s)"
    by (rule handleEvent_filter) auto
  then show ?thesis by (simp add: closes_def)
qed

lemma handleEventWithRetries_latch:
  "once (snd (handleEventWithRetries d qe s)) = once s"
  "stopChan (snd (handleEventWithRetries d qe s)) = stopChan s"
  "closes (snd (handleEventWithRetries d qe s)) = closes s"
  using handleEvent_closes [of d qe s]
  by (simp_all add: handleEventWithRetries_def split_def handleEvent_latch closes_def
        split: option.splits)

lemma start_latch:
  "once (snd (start d xs s)) = once s \<and> stopChan (snd (start d xs s)) = stopChan s
     \<and> closes (snd (start d xs s)) = closes s"
proof (induction d xs s rule: start.induct)
  case (1 d s)
  show ?case by simp
next
  case (2 d rest s)
  show ?case by simp
next
  case (3 d ev rest s)
  show ?case
  proof (cases "needsHandling s ev")
    case False
    with 3 show ?thesis by simp
  next
    case True
    obtain r s1 where h: "handleEventWithRetries d ev s = (r, s1)"
      by (cases "handleEventWithRetries d ev s")
    have keep: "once s1 = once s" "stopChan s1 = stopChan s" "closes s1 = closes s"
      using handleEventWithRetries_latch [of d ev s] h by simp_all
    show ?thesis
    proof (cases r)
      case None
      with 3(2) [OF _ h [symmetric]] True h keep show ?thesis by simp
    next
      case (Some e)
      with True h keep show ?thesis by simp
    qed
  qed
qed

lemma reachable_latch:
  "reachable d s \<Longrightarrow>
     (once s \<and> stopChan s = Closed \<and> closes s = 1) \<or> (\<not> once s \<and> stopChan s = Open \<and> closes s = 0)"
proof (induction rule: reachable.induct)
  case (constructed w)
  show ?case by (simp add: NewProviderRegistrar_def closes_def)
next
  case (worked s xs r s')
  from start_latch [of d xs s] worked show ?case by simp
next
  case (stopped s s')
  then show ?case
    by (auto simp: stop_def close_chan_def closes_def split: if_splits)
qed

lemma stop_once: "once s \<Longrightarrow> stop s = Inr s"
  by (simp add: stop_def)

lemma stops_once: "once s \<Longrightarrow> stops n s = Inr s"
  by (induction n) (simp_all add: stop_once)

subsection \<open>Shutdown\<close>

text \<open>
  C9. Shutdown is idempotent. In every state the registrar can reach, whether \<open>stop\<close>
  has been called before or not, any number \<open>n + 1\<close> of further calls of \<open>stop\<close>
  ends without panic in a state whose trace holds exactly one close of the shutdown
  channel; one more call changes nothing, and where \<open>stop\<close> had been called before, none
  of the calls changes anything.
\<close>

theorem stop_idempotent:
  assumes "reachable d s"
  shows "\<exists>s'. stops (Suc n) s = Inr s' \<and> once s' \<and> stopChan s' = Closed \<and> closes s' = 1
            \<and> stop s' = Inr s' \<and> (once s \<longrightarrow> s' = s)"
proof (cases "once s")
  case True
  with reachable_latch [OF assms] show ?thesis
    by (simp add: stop_once stops_once)
next
  case False
  with reachable_latch [OF assms] have o: "stopChan s = Open" "closes s = 0" by simp_all
  let ?s' = "s\<lparr>once := True, stopChan := Closed, trace := trace s @ [CloseStopChan]\<rparr>"
  have "stop s = Inr ?s'" using False o by (simp add: stop_def close_chan_def)
  moreover have "once ?s'" by simp
  ultimately have "stops (Suc n) s = Inr ?s'" by (simp add: stops_once)
  moreover have "closes ?s' = 1" using o by (simp add: closes_def)
  ultimately show ?thesis using False by (simp add: stop_once)
qed

theorem stop_idempotent_witness:
  "reachable fakeDeps (NewProviderRegistrar 0)
   \<and> stops 2 (NewProviderRegistrar (0::nat)) =
        Inr \<lparr>once = True, stopChan = Closed, registeredIdentities = {}, world = 0, trace = [CloseStopChan]\<rparr>"
proof -
  have r: "reachable fakeDeps (NewProviderRegistrar 0)" by (rule reachable.constructed)
  have e: "stops 2 (NewProviderRegistrar (0::nat)) =
        Inr \<lparr>once = True, stopChan = Closed, registeredIdentities = {}, world = 0, trace = [CloseStopChan]\<rparr>"
    by (simp add: numeral_2_eq_2 stop_def close_chan_def NewProviderRegistrar_def)
  from stop_idempotent [OF r, of 1] r e show ?thesis by simp
qed

subsection \<open>Admission\<close>

text \<open>
  C4. The admission filter accepts an event exactly when its status is the Running value
  and its provider is not in the set of registered identities. The worker loop drops an
  event the filter rejects and goes on with the unchanged registrar: nothing is called and
  nothing is recorded for it. Only an event that passes both checks is handed to the
  pipeline.
\<close>

theorem admission_filter:
  "needsHandling s qe = (Status (event qe) = Running \<and> ProviderID (event qe) \<notin> registeredIdentities s)
   \<and> (Status (event qe) \<noteq> Running \<or> ProviderID (event qe) \<in> registeredIdentities s \<longrightarrow>
        start d (QueueCase qe # rest) s = start d rest s \<and> start d [QueueCase qe] s = (Blocked, s))
   \<and> (Status (event qe) = Running \<and> ProviderID (event qe) \<notin> registeredIdentities s \<longrightarrow>
        start d (QueueCase qe # rest) s =
          (case handleEventWithRetries d qe s of
             (Some err, s1) \<Rightarrow> (Returned (Some err), s1)
           | (None, s1) \<Rightarrow> start d rest s1))"
  by (simp add: needsHandling_def)

theorem admission_filter_witness:
  "start fakeDeps [QueueCase (consumeServiceEvent \<lparr>ProviderID = ''0xprovider'', Status = ''Stopped''\<rparr>)]
       (NewProviderRegistrar 0) = (Blocked, NewProviderRegistrar 0)
   \<and> start fakeDeps [QueueCase fakeEvent] ((NewProviderRegistrar 0)\<lparr>registeredIdentities := {''0xprovider''}\<rparr>)
       = (Blocked, (NewProviderRegistrar 0)\<lparr>registeredIdentities := {''0xprovider''}\<rparr>)
   \<and> start (fakeDeps\<lparr>GetRegistrationStatus := \<lambda>c i w. ((Registered, None), w)\<rparr>) [QueueCase fakeEvent]
       (NewProviderRegistrar 0) =
         (Blocked, \<lparr>once = False, stopChan = Open, registeredIdentities = {''0xprovider''}, world = 0,
                    trace = [GetRegistrationStatusCall 137 \<lparr>Address = ''0xprovider''\<rparr>]\<rparr>)"
  using admission_filter [of "NewProviderRegistrar (0::nat)"
          "consumeServiceEvent \<lparr>ProviderID = ''0xprovider'', Status = ''Stopped''\<rparr>" fakeDeps "[]"]
        admission_filter [of "(NewProviderRegistrar (0::nat))\<lparr>registeredIdentities := {''0xprovider''}\<rparr>"
          fakeEvent fakeDeps "[]"]
        admission_filter [of "NewProviderRegistrar (0::nat)" fakeEvent
          "fakeDeps\<lparr>GetRegistrationStatus := \<lambda>c i w. ((Registered, None), w)\<rparr>" "[]"]
  by (simp add: fakeDeps_def fakeEvent_def NewProviderRegistrar_def chainID_def consumeServiceEvent_def
        Running_def handleEventWithRetries_def handleEvent_def record_call_def)

subsection \<open>Status check\<close>

text \<open>
  C3. If the status check answers Registered without error, the pipeline makes that one
  call and no other (no eligibility check, no beneficiary lookup, no submission), adds the
  provider to the set of registered identities and returns no error; nothing is scheduled
  for retry.
\<close>

theorem registered_is_cached:
  assumes "GetRegistrationStatus d (chainID d) (FromAddress d (ProviderID (event qe))) (world s)
             = ((Registered, None), w1)"
  shows "handleEvent d qe s =
           (None, s\<lparr>world := w1,
                    trace := trace s @ [GetRegistrationStatusCall (chainID d) (FromAddress d (ProviderID (event qe)))],
                    registeredIdentities := insert (ProviderID (event qe)) (registeredIdentities s)\<rparr>)
         \<and> handleEventWithRetries d qe s = handleEvent d qe s"
  using assms by (simp add: handleEvent_def handleEventWithRetries_def record_call_eq)

theorem registered_is_cached_witness:
  "handleEvent (fakeDeps\<lparr>GetRegistrationStatus := \<lambda>c i w. ((Registered, None), w)\<rparr>) fakeEvent (NewProviderRegistrar 0) =
           (None, \<lparr>once = False, stopChan = Open, registeredIdentities = {''0xprovider''}, world = 0,
                    trace = [GetRegistrationStatusCall 137 \<lparr>Address = ''0xprovider''\<rparr>]\<rparr>)"
  using registered_is_cached [of "fakeDeps\<lparr>GetRegistrationStatus := \<lambda>c i w. ((Registered, None), w)\<rparr>" fakeEvent "NewProviderRegistrar 0" 0]
  by (simp add: fakeDeps_def fakeEvent_def NewProviderRegistrar_def chainID_def consumeServiceEvent_def)

subsection \<open>The zero beneficiary\<close>

text \<open>
  C6. A registration attempt whose beneficiary passes the zero-address test of the code
  (\<open>isZeroAddress\<close>) returns no error and leaves the registrar as it was: no collaborator
  is called, so nothing is submitted.
\<close>

theorem zero_beneficiary_is_manual:
  "isZeroAddress d benef \<Longrightarrow> registerIdentity d qe ident benef s = (None, s)"
  by (simp add: registerIdentity_def)

theorem zero_beneficiary_is_manual_witness:
  "isZeroAddress fakeDeps zeroAddress
   \<and> registerIdentity fakeDeps fakeEvent \<lparr>Address = ''0xprovider''\<rparr> zeroAddress (NewProviderRegistrar 0)
       = (None, NewProviderRegistrar 0)"
proof -
  have z: "isZeroAddress fakeDeps zeroAddress"
    by (simp add: isZeroAddress_def fakeDeps_def)
  from zero_beneficiary_is_manual [OF z] z show ?thesis by simp
qed

subsection \<open>Exhausted retries\<close>

text \<open>
  C2. When the pipeline fails for an event whose retry count has reached the configured
  maximum (as it has on the first failure when the maximum is 0), \<open>handleEventWithRetries\<close>
  returns the error wrapped with "max attempts reached for provider registration", and
  the worker loop returns that error at once: whatever is still queued is not processed,
  the registrar is left as the failed attempt left it.
\<close>

theorem retries_exhausted_is_fatal:
  assumes "fst (handleEvent d qe s) = Some err"
    and "sint (MaxRetries (cfg d)) \<le> sint (retries qe)"
  shows "handleEventWithRetries d qe s =
           (Some (Wrap err ''max attempts reached for provider registration''), snd (handleEvent d qe s))
         \<and> (needsHandling s qe \<longrightarrow>
              start d (QueueCase qe # rest) s =
                (Returned (Some (Wrap err ''max attempts reached for provider registration'')),
                 snd (handleEvent d qe s)))"
  using assms by (simp add: handleEventWithRetries_def split_def word_sless_alt)

theorem retries_exhausted_is_fatal_witness:
  "start noRetries [QueueCase fakeEvent, QueueCase fakeEvent] (NewProviderRegistrar 1) =
     (Returned (Some (Wrap (Wrap (External ''rpc unavailable'') ''could not check registration status on BC'')
                        ''max attempts reached for provider registration'')),
      \<lparr>once = False, stopChan = Open, registeredIdentities = {}, world = 0,
       trace = [GetRegistrationStatusCall 137 \<lparr>Address = ''0xprovider''\<rparr>]\<rparr>)"
proof -
  have h: "handleEvent noRetries fakeEvent (NewProviderRegistrar 1) =
      (Some (Wrap (External ''rpc unavailable'') ''could not check registration status on BC''),
       \<lparr>once = False, stopChan = Open, registeredIdentities = {}, world = 0,
       trace = [GetRegistrationStatusCall 137 \<lparr>Address = ''0xprovider''\<rparr>]\<rparr>)"
    by (simp add: noRetries_def fakeDeps_def fakeEvent_def NewProviderRegistrar_def chainID_def
          consumeServiceEvent_def handleEvent_def record_call_def)
  have m: "sint (MaxRetries (cfg noRetries)) \<le> sint (retries fakeEvent)"
    by (simp add: noRetries_def fakeEvent_def consumeServiceEvent_def)
  have n: "needsHandling (NewProviderRegistrar (1::nat)) fakeEvent"
    by (simp add: needsHandling_def fakeEvent_def consumeServiceEvent_def Running_def NewProviderRegistrar_def)
  from retries_exhausted_is_fatal [of noRetries fakeEvent "NewProviderRegistrar 1" _ "[QueueCase fakeEvent]", OF _ m] h n
  show ?thesis by simp
qed

subsection \<open>Registration on the settlement chain\<close>

lemma fakeBeneficiary_not_zero:
  "EqualFold d = (\<lambda>a b. a = b) \<Longrightarrow> \<not> isZeroAddress d fakeBeneficiary"
  by (simp add: isZeroAddress_def Bytes_def fakeBeneficiary_def zeroAddress_def upt_conv_Cons)

text \<open>
  C5. A registration attempt with a beneficiary \<open>B\<close> that fails the zero-address test, on
  a registrar whose default chain is the settlement chain. If \<open>GetChannelAddress\<close> fails,
  its error is returned as it is and nothing is submitted. If it answers \<open>C\<close>, the
  submission is called with the hex form of \<open>C\<close>; when the submission succeeds the
  beneficiary store is called with the identity's address and the hex form of \<open>B\<close>, the
  provider joins the registered identities and no error is returned, whatever the store
  answers.
\<close>

theorem settlement_chain_uses_channel_address:
  assumes "\<not> isZeroAddress d B" and "chainID d = l2chainID d"
  shows "(GetChannelAddress d (chainID d) ident (world s) = ((C, Some e), w1) \<longrightarrow>
            registerIdentity d qe ident B s =
              (Some e, s\<lparr>world := w1, trace := trace s @ [GetChannelAddressCall (chainID d) ident]\<rparr>))
       \<and> (GetChannelAddress d (chainID d) ident (world s) = ((C, None), w1)
            \<and> RegisterIdentity d (ProviderID (event qe)) 0 None (Hex d C) (chainID d) None w1 = (Some e, w2) \<longrightarrow>
            registerIdentity d qe ident B s =
              (Some (Wrap e ''could not register identity on BC''),
               s\<lparr>world := w2,
                 trace := trace s @ [GetChannelAddressCall (chainID d) ident,
                   RegisterIdentityCall (ProviderID (event qe)) 0 None (Hex d C) (chainID d) None]\<rparr>))
       \<and> (GetChannelAddress d (chainID d) ident (world s) = ((C, None), w1)
            \<and> RegisterIdentity d (ProviderID (event qe)) 0 None (Hex d C) (chainID d) None w1 = (None, w2)
            \<and> Save d (Address ident) (Hex d B) w2 = (saved, w3) \<longrightarrow>
            registerIdentity d qe ident B s =
              (None,
               s\<lparr>world := w3,
                 trace := trace s @ [GetChannelAddressCall (chainID d) ident,
                   RegisterIdentityCall (ProviderID (event qe)) 0 None (Hex d C) (chainID d) None,
                   SaveCall (Address ident) (Hex d B)],
                 registeredIdentities := insert (ProviderID (event qe)) (registeredIdentities s)\<rparr>))"
  using assms by (simp add: registerIdentity_def record_call_def)

theorem settlement_chain_uses_channel_address_witness:
  "registerIdentity noChannel fakeEvent \<lparr>Address = ''0xprovider''\<rparr> fakeBeneficiary (NewProviderRegistrar 0) =
     (Some (External ''no channel''),
      \<lparr>once = False, stopChan = Open, registeredIdentities = {}, world = 0,
       trace = [GetChannelAddressCall 137 \<lparr>Address = ''0xprovider''\<rparr>]\<rparr>)
   \<and> registerIdentity noSubmission fakeEvent \<lparr>Address = ''0xprovider''\<rparr> fakeBeneficiary (NewProviderRegistrar 0) =
     (Some (Wrap (External ''tx rejected'') ''could not register identity on BC''),
      \<lparr>once = False, stopChan = Open, registeredIdentities = {}, world = 0,
       trace = [GetChannelAddressCall 137 \<lparr>Address = ''0xprovider''\<rparr>,
                RegisterIdentityCall ''0xprovider'' 0 None (fakeHex fakeChannel) 137 None]\<rparr>)
   \<and> registerIdentity fakeDeps fakeEvent \<lparr>Address = ''0xprovider''\<rparr> fakeBeneficiary (NewProviderRegistrar 0) =
     (None,
      \<lparr>once = False, stopChan = Open, registeredIdentities = {''0xprovider''}, world = 0,
       trace = [GetChannelAddressCall 137 \<lparr>Address = ''0xprovider''\<rparr>,
                RegisterIdentityCall ''0xprovider'' 0 None (fakeHex fakeChannel) 137 None,
                SaveCall ''0xprovider'' (fakeHex fakeBeneficiary)]\<rparr>)"
proof -
  have nz: "\<not> isZeroAddress noChannel fakeBeneficiary" "\<not> isZeroAddress noSubmission fakeBeneficiary"
      "\<not> isZeroAddress fakeDeps fakeBeneficiary"
    by (rule fakeBeneficiary_not_zero, simp add: noChannel_def noSubmission_def fakeDeps_def)+
  have l2: "chainID noChannel = l2chainID noChannel" "chainID noSubmission = l2chainID noSubmission"
      "chainID fakeDeps = l2chainID fakeDeps"
    by (simp_all add: chainID_def l2chainID_def noChannel_def noSubmission_def fakeDeps_def)
  from settlement_chain_uses_channel_address [OF nz(1) l2(1),
         where ident = "\<lparr>Address = ''0xprovider''\<rparr>" and s = "NewProviderRegistrar 0" and C = 0
           and e = "External ''no channel''" and ?w1.0 = 0 and qe = fakeEvent]
       settlement_chain_uses_channel_address [OF nz(2) l2(2),
         where ident = "\<lparr>Address = ''0xprovider''\<rparr>" and s = "NewProviderRegistrar 0" and C = fakeChannel
           and e = "External ''tx rejected''" and ?w1.0 = 0 and ?w2.0 = 0 and qe = fakeEvent]
       settlement_chain_uses_channel_address [OF nz(3) l2(3),
         where ident = "\<lparr>Address = ''0xprovider''\<rparr>" and s = "NewProviderRegistrar 0" and C = fakeChannel
           and ?w1.0 = 0 and ?w2.0 = 0 and ?w3.0 = 0 and saved = None and qe = fakeEvent]
  show ?thesis
    by (simp add: noChannel_def noSubmission_def fakeDeps_def fakeEvent_def consumeServiceEvent_def
          NewProviderRegistrar_def chainID_def)
qed

subsection \<open>Eligibility\<close>

lemma oldRegistry_value [simp]: "oldRegistryAddress = 0x15B1281F4E58215B2C3243D864BDF8B9DDDC0DA2"
  by (simp add: oldRegistryAddress_def)

lemma getBeneficiaryFromOldRegistry_noelig:
  "filter isEligibilityCheck (trace (snd (getBeneficiaryFromOldRegistry d i s)))
     = filter isEligibilityCheck (trace s)"
  by (simp add: getBeneficiaryFromOldRegistry_def split_def split: option.splits)

lemma registerIdentity_noelig:
  "filter isEligibilityCheck (trace (snd (registerIdentity d qe i b s)))
     = filter isEligibilityCheck (trace s)"
  by (simp add: registerIdentity_def split_def Let_def split: option.splits)

text \<open>
  C7. An event whose status check answered something other than Registered, without
  error. In testnet mode the pipeline goes from the status check straight to the
  legacy-registry lookup, as it does after a positive eligibility answer, and no
  eligibility check is among the calls it makes. Outside testnet mode, an eligibility
  answer of false ends the pipeline after these two calls: no beneficiary lookup, no
  submission, no error, no retry.
\<close>

theorem eligibility_gate:
  assumes "GetRegistrationStatus d (chainID d) (FromAddress d (ProviderID (event qe))) (world s)
             = ((st, None), w0)"
    and "st \<noteq> Registered"
  shows "(IsTestnet3 (cfg d) \<longrightarrow>
            handleEvent d qe s =
              (case getBeneficiaryFromOldRegistry d (FromAddress d (ProviderID (event qe)))
                      (s\<lparr>world := w0,
                         trace := trace s @ [GetRegistrationStatusCall (chainID d) (FromAddress d (ProviderID (event qe)))]\<rparr>) of
                 ((benef, Some e), s2) \<Rightarrow> (Some e, s2)
               | ((benef, None), s2) \<Rightarrow> registerIdentity d qe (FromAddress d (ProviderID (event qe))) benef s2)
            \<and> filter isEligibilityCheck (trace (snd (handleEvent d qe s))) = filter isEligibilityCheck (trace s))
       \<and> (\<not> IsTestnet3 (cfg d)
            \<and> CheckIfRegistrationBountyEligible d (FromAddress d (ProviderID (event qe))) w0 = ((False, None), w1) \<longrightarrow>
            handleEvent d qe s =
              (None, s\<lparr>world := w1,
                       trace := trace s @ [GetRegistrationStatusCall (chainID d) (FromAddress d (ProviderID (event qe))),
                         CheckIfRegistrationBountyEligibleCall (FromAddress d (ProviderID (event qe)))]\<rparr>)
            \<and> handleEventWithRetries d qe s = handleEvent d qe s)"
proof -
  let ?i = "FromAddress d (ProviderID (event qe))"
  let ?s0 = "s\<lparr>world := w0, trace := trace s @ [GetRegistrationStatusCall (chainID d) ?i]\<rparr>"
  have h: "handleEvent d qe s = registerIdentityIfEligible d qe ?s0"
    using assms by (cases st) (simp_all add: handleEvent_def record_call_eq)
  have t: "IsTestnet3 (cfg d) \<Longrightarrow>
      registerIdentityIfEligible d qe ?s0 =
        (case getBeneficiaryFromOldRegistry d ?i ?s0 of
           ((benef, Some e), s2) \<Rightarrow> (Some e, s2)
         | ((benef, None), s2) \<Rightarrow> registerIdentity d qe ?i benef s2)"
    by (simp add: registerIdentityIfEligible_def Let_def)
  have n: "IsTestnet3 (cfg d) \<Longrightarrow>
      filter isEligibilityCheck (trace (snd (registerIdentityIfEligible d qe ?s0))) = filter isEligibilityCheck (trace s)"
    by (simp add: registerIdentityIfEligible_def Let_def split_def registerIdentity_noelig
          getBeneficiaryFromOldRegistry_noelig split: option.splits)
  have i: "\<not> IsTestnet3 (cfg d) \<Longrightarrow> CheckIfRegistrationBountyEligible d ?i w0 = ((False, None), w1) \<Longrightarrow>
      registerIdentityIfEligible d qe ?s0 =
        (None, s\<lparr>world := w1,
                 trace := trace s @ [GetRegistrationStatusCall (chainID d) ?i, CheckIfRegistrationBountyEligibleCall ?i]\<rparr>)"
    by (simp add: registerIdentityIfEligible_def Let_def record_call_def)
  from h t n i show ?thesis by (simp add: handleEventWithRetries_def)
qed

theorem eligibility_gate_witness:
  "handleEvent testnet3 fakeEvent (NewProviderRegistrar 0) =
     (None,
      \<lparr>once = False, stopChan = Open, registeredIdentities = {''0xprovider''}, world = 0,
       trace = [GetRegistrationStatusCall 137 \<lparr>Address = ''0xprovider''\<rparr>,
                GetRegistryAddressCall 5,
                GetBeneficiaryCall 5 0x15B1281F4E58215B2C3243D864BDF8B9DDDC0DA2 0x1D,
                GetChannelAddressCall 137 \<lparr>Address = ''0xprovider''\<rparr>,
                RegisterIdentityCall ''0xprovider'' 0 None (fakeHex fakeChannel) 137 None,
                SaveCall ''0xprovider'' (fakeHex fakeBeneficiary)]\<rparr>)
   \<and> handleEventWithRetries ineligible fakeEvent (NewProviderRegistrar 0) =
     (None,
      \<lparr>once = False, stopChan = Open, registeredIdentities = {}, world = 0,
       trace = [GetRegistrationStatusCall 137 \<lparr>Address = ''0xprovider''\<rparr>,
                CheckIfRegistrationBountyEligibleCall \<lparr>Address = ''0xprovider''\<rparr>]\<rparr>)"
proof -
  have nz: "\<not> isZeroAddress testnet3 fakeBeneficiary"
    by (rule fakeBeneficiary_not_zero) (simp add: testnet3_def fakeDeps_def)
  have st: "GetRegistrationStatus testnet3 (chainID testnet3) (FromAddress testnet3 (ProviderID (event fakeEvent)))
               (world (NewProviderRegistrar 0)) = ((NotRegistered, None), 0)"
      "GetRegistrationStatus ineligible (chainID ineligible) (FromAddress ineligible (ProviderID (event fakeEvent)))
               (world (NewProviderRegistrar 0)) = ((NotRegistered, None), 0)"
    by (simp_all add: testnet3_def ineligible_def fakeDeps_def NewProviderRegistrar_def)
  have g: "getBeneficiaryFromOldRegistry testnet3 \<lparr>Address = ''0xprovider''\<rparr>
             \<lparr>once = False, stopChan = Open, registeredIdentities = {}, world = 0,
              trace = [GetRegistrationStatusCall 137 \<lparr>Address = ''0xprovider''\<rparr>]\<rparr>
           = ((fakeBeneficiary, None),
              \<lparr>once = False, stopChan = Open, registeredIdentities = {}, world = 0,
               trace = [GetRegistrationStatusCall 137 \<lparr>Address = ''0xprovider''\<rparr>, GetRegistryAddressCall 5,
                        GetBeneficiaryCall 5 0x15B1281F4E58215B2C3243D864BDF8B9DDDC0DA2 0x1D]\<rparr>)"
    by (simp add: getBeneficiaryFromOldRegistry_def record_call_def testnet3_def fakeDeps_def l1chainID_def)
  have r: "registerIdentity testnet3 fakeEvent \<lparr>Address = ''0xprovider''\<rparr> fakeBeneficiary
              \<lparr>once = False, stopChan = Open, registeredIdentities = {}, world = 0,
               trace = [GetRegistrationStatusCall 137 \<lparr>Address = ''0xprovider''\<rparr>, GetRegistryAddressCall 5,
                        GetBeneficiaryCall 5 0x15B1281F4E58215B2C3243D864BDF8B9DDDC0DA2 0x1D]\<rparr>
           = (None,
      \<lparr>once = False, stopChan = Open, registeredIdentities = {''0xprovider''}, world = 0,
       trace = [GetRegistrationStatusCall 137 \<lparr>Address = ''0xprovider''\<rparr>,
                GetRegistryAddressCall 5,
                GetBeneficiaryCall 5 0x15B1281F4E58215B2C3243D864BDF8B9DDDC0DA2 0x1D,
                GetChannelAddressCall 137 \<lparr>Address = ''0xprovider''\<rparr>,
                RegisterIdentityCall ''0xprovider'' 0 None (fakeHex fakeChannel) 137 None,
                SaveCall ''0xprovider'' (fakeHex fakeBeneficiary)]\<rparr>)"
    using nz
    by (simp add: registerIdentity_def record_call_def chainID_def l2chainID_def fakeEvent_def
          consumeServiceEvent_def testnet3_def fakeDeps_def)
  from eligibility_gate [OF st(1), where ?w1.0 = 0] eligibility_gate [OF st(2), where ?w1.0 = 0] g r
  show ?thesis
    by (simp add: testnet3_def ineligible_def fakeDeps_def fakeEvent_def consumeServiceEvent_def
          NewProviderRegistrar_def chainID_def)
qed

subsection \<open>The legacy registry\<close>

text \<open>
  The pipeline up to the legacy-registry lookup: the status check answers \<open>st\<close>, not
  Registered, and the eligibility check, where it is made, answers true.
\<close>

lemma handleEvent_to_lookup:
  assumes "GetRegistrationStatus d (chainID d) (FromAddress d (ProviderID (event qe))) (world s)
             = ((st, None), w1)"
    and "st \<noteq> Registered"
    and "if IsTestnet3 (cfg d) then w2 = w1
         else CheckIfRegistrationBountyEligible d (FromAddress d (ProviderID (event qe))) w1 = ((True, None), w2)"
  shows "handleEvent d qe s =
           (case getBeneficiaryFromOldRegistry d (FromAddress d (ProviderID (event qe)))
                   (s\<lparr>world := w2,
                      trace := trace s @ GetRegistrationStatusCall (chainID d) (FromAddress d (ProviderID (event qe)))
                        # (if IsTestnet3 (cfg d) then []
                           else [CheckIfRegistrationBountyEligibleCall (FromAddress d (ProviderID (event qe)))])\<rparr>) of
              ((benef, Some e), s2) \<Rightarrow> (Some e, s2)
            | ((benef, None), s2) \<Rightarrow> registerIdentity d qe (FromAddress d (ProviderID (event qe))) benef s2)"
proof -
  let ?i = "FromAddress d (ProviderID (event qe))"
  let ?s0 = "s\<lparr>world := w1, trace := trace s @ [GetRegistrationStatusCall (chainID d) ?i]\<rparr>"
  have h: "handleEvent d qe s = registerIdentityIfEligible d qe ?s0"
    using assms(1,2) by (cases st) (simp_all add: handleEvent_def record_call_eq)
  show ?thesis
  proof (cases "IsTestnet3 (cfg d)")
    case True
    with assms(3) h show ?thesis by (simp add: registerIdentityIfEligible_def Let_def)
  next
    case False
    with assms(3) h show ?thesis by (simp add: registerIdentityIfEligible_def Let_def record_call_def)
  qed
qed

text \<open>
  C10. When the pipeline reaches the legacy-registry lookup and \<open>GetRegistryAddress\<close> for the
  legacy chain fails, the pipeline returns that error (inside the message "could not get
  registry address for chain ...") after this call, and the retry logic treats it as any
  failure: below the maximum the event is handed to \<open>delayedRequeue\<close> with its retry count
  raised by one, at the maximum the error is returned wrapped with "max attempts reached
  for provider registration".
\<close>

theorem registry_address_error_propagates:
  assumes "GetRegistrationStatus d (chainID d) (FromAddress d (ProviderID (event qe))) (world s)
             = ((st, None), w1)"
    and "st \<noteq> Registered"
    and "if IsTestnet3 (cfg d) then w2 = w1
         else CheckIfRegistrationBountyEligible d (FromAddress d (ProviderID (event qe))) w1 = ((True, None), w2)"
    and "GetRegistryAddress d (l1chainID d) w2 = ((ra, Some e), w3)"
    and "s3 = s\<lparr>world := w3,
                 trace := trace s @ GetRegistrationStatusCall (chainID d) (FromAddress d (ProviderID (event qe)))
                   # (if IsTestnet3 (cfg d) then []
                      else [CheckIfRegistrationBountyEligibleCall (FromAddress d (ProviderID (event qe)))])
                   @ [GetRegistryAddressCall (l1chainID d)]\<rparr>"
  shows "handleEvent d qe s = (Some (RegistryAddressErrorf (l1chainID d) e), s3)
       \<and> handleEventWithRetries d qe s =
           (if word_sless (retries qe) (MaxRetries (cfg d))
            then (None, s3\<lparr>trace := trace s3 @ [GoDelayedRequeue (qe\<lparr>retries := retries qe + 1\<rparr>)]\<rparr>)
            else (Some (Wrap (RegistryAddressErrorf (l1chainID d) e) ''max attempts reached for provider registration''),
                  s3))"
proof -
  have "handleEvent d qe s = (Some (RegistryAddressErrorf (l1chainID d) e), s3)"
    using assms(4,5)
    by (simp add: handleEvent_to_lookup [OF assms(1,2,3)] getBeneficiaryFromOldRegistry_def record_call_def)
  then show ?thesis by (simp add: handleEventWithRetries_def)
qed

theorem registry_address_error_propagates_witness:
  "handleEventWithRetries noRegistry fakeEvent (NewProviderRegistrar 0) =
     (None,
      \<lparr>once = False, stopChan = Open, registeredIdentities = {}, world = 0,
       trace = [GetRegistrationStatusCall 137 \<lparr>Address = ''0xprovider''\<rparr>,
                CheckIfRegistrationBountyEligibleCall \<lparr>Address = ''0xprovider''\<rparr>,
                GetRegistryAddressCall 5,
                GoDelayedRequeue \<lparr>event = \<lparr>ProviderID = ''0xprovider'', Status = ''Running''\<rparr>, retries = 1\<rparr>]\<rparr>)
   \<and> handleEvent noRegistry fakeEvent (NewProviderRegistrar 0) =
     (Some (RegistryAddressErrorf 5 (External ''no registry'')),
      \<lparr>once = False, stopChan = Open, registeredIdentities = {}, world = 0,
       trace = [GetRegistrationStatusCall 137 \<lparr>Address = ''0xprovider''\<rparr>,
                CheckIfRegistrationBountyEligibleCall \<lparr>Address = ''0xprovider''\<rparr>,
                GetRegistryAddressCall 5]\<rparr>)"
proof -
  have st: "GetRegistrationStatus noRegistry (chainID noRegistry) (FromAddress noRegistry (ProviderID (event fakeEvent)))
               (world (NewProviderRegistrar 0)) = ((NotRegistered, None), 0)"
    by (simp add: noRegistry_def fakeDeps_def NewProviderRegistrar_def)
  have el: "if IsTestnet3 (cfg noRegistry) then (0::nat) = 0
            else CheckIfRegistrationBountyEligible noRegistry (FromAddress noRegistry (ProviderID (event fakeEvent))) 0
                   = ((True, None), 0)"
    by (simp add: noRegistry_def fakeDeps_def)
  have ra: "GetRegistryAddress noRegistry (l1chainID noRegistry) 0 = ((0, Some (External ''no registry'')), 0)"
    by (simp add: noRegistry_def fakeDeps_def)
  have nr: "NotRegistered \<noteq> Registered" by simp
  from registry_address_error_propagates [OF st nr el ra refl]
  show ?thesis
    by (simp add: noRegistry_def fakeDeps_def fakeEvent_def consumeServiceEvent_def
          NewProviderRegistrar_def chainID_def l1chainID_def word_sless_alt)
qed

text \<open>
  C1. When the pipeline reaches the read of the old registry (the registry address of the
  legacy chain passes the comparison with the new registry's address) and \<open>GetBeneficiary\<close>
  returns an error, the error goes no further: the pipeline continues into the registration
  attempt with the address that \<open>GetBeneficiary\<close> returned beside the error. When that
  address passes the zero-address test, the pipeline ends after the read, with no error,
  no submission and no retry.
\<close>

theorem legacy_read_error_is_swallowed:
  assumes "GetRegistrationStatus d (chainID d) (FromAddress d (ProviderID (event qe))) (world s)
             = ((st, None), w1)"
    and "st \<noteq> Registered"
    and "if IsTestnet3 (cfg d) then w2 = w1
         else CheckIfRegistrationBountyEligible d (FromAddress d (ProviderID (event qe))) w1 = ((True, None), w2)"
    and "GetRegistryAddress d (l1chainID d) w2 = ((ra, None), w3)"
    and "EqualFold d (Bytes ra) (Bytes newRegistryAddress)"
    and "GetBeneficiary d 5 oldRegistryAddress (ToCommonAddress d (FromAddress d (ProviderID (event qe)))) w3
           = ((b, Some e), w4)"
    and "s4 = s\<lparr>world := w4,
                 trace := trace s @ GetRegistrationStatusCall (chainID d) (FromAddress d (ProviderID (event qe)))
                   # (if IsTestnet3 (cfg d) then []
                      else [CheckIfRegistrationBountyEligibleCall (FromAddress d (ProviderID (event qe)))])
                   @ [GetRegistryAddressCall (l1chainID d),
                      GetBeneficiaryCall 5 oldRegistryAddress
                        (ToCommonAddress d (FromAddress d (ProviderID (event qe))))]\<rparr>"
  shows "handleEvent d qe s = registerIdentity d qe (FromAddress d (ProviderID (event qe))) b s4
       \<and> (isZeroAddress d b \<longrightarrow> handleEventWithRetries d qe s = (None, s4))"
proof -
  have h: "handleEvent d qe s = registerIdentity d qe (FromAddress d (ProviderID (event qe))) b s4"
    using assms(4,5,6,7)
    by (simp add: handleEvent_to_lookup [OF assms(1,2,3)] getBeneficiaryFromOldRegistry_def record_call_def)
  then show ?thesis by (simp add: handleEventWithRetries_def registerIdentity_def)
qed

theorem legacy_read_error_is_swallowed_witness:
  "handleEventWithRetries failedRead fakeEvent (NewProviderRegistrar 0) =
     (None,
      \<lparr>once = False, stopChan = Open, registeredIdentities = {}, world = 0,
       trace = [GetRegistrationStatusCall 137 \<lparr>Address = ''0xprovider''\<rparr>,
                CheckIfRegistrationBountyEligibleCall \<lparr>Address = ''0xprovider''\<rparr>,
                GetRegistryAddressCall 5,
                GetBeneficiaryCall 5 0x15B1281F4E58215B2C3243D864BDF8B9DDDC0DA2 0x1D]\<rparr>)"
proof -
  have st: "GetRegistrationStatus failedRead (chainID failedRead) (FromAddress failedRead (ProviderID (event fakeEvent)))
               (world (NewProviderRegistrar 0)) = ((NotRegistered, None), 0)"
    by (simp add: failedRead_def fakeDeps_def NewProviderRegistrar_def)
  have nr: "NotRegistered \<noteq> Registered" by simp
  have el: "if IsTestnet3 (cfg failedRead) then (0::nat) = 0
            else CheckIfRegistrationBountyEligible failedRead (FromAddress failedRead (ProviderID (event fakeEvent))) 0
                   = ((True, None), 0)"
    by (simp add: failedRead_def fakeDeps_def)
  have ra: "GetRegistryAddress failedRead (l1chainID failedRead) 0 = ((newRegistryAddress, None), 0)"
    by (simp add: failedRead_def fakeDeps_def)
  have eq: "EqualFold failedRead (Bytes newRegistryAddress) (Bytes newRegistryAddress)"
    by (simp add: failedRead_def fakeDeps_def)
  have gb: "GetBeneficiary failedRead 5 oldRegistryAddress
              (ToCommonAddress failedRead (FromAddress failedRead (ProviderID (event fakeEvent)))) 0
            = ((0, Some (External ''call reverted'')), 0)"
    by (simp add: failedRead_def fakeDeps_def)
  have z: "isZeroAddress failedRead 0"
    by (simp add: isZeroAddress_def zeroAddress_def failedRead_def fakeDeps_def)
  from legacy_read_error_is_swallowed [OF st nr el ra eq gb refl] z
  show ?thesis
    by (simp add: failedRead_def fakeDeps_def fakeEvent_def consumeServiceEvent_def
          NewProviderRegistrar_def chainID_def l1chainID_def)
qed

text \<open>
  The claim as the spec words it, that the pipeline continues with the zero address and
  submits nothing, fails for a \<open>GetBeneficiary\<close> that returns an address other than zero
  beside its error: the registration is submitted for that address.
\<close>

theorem legacy_read_error_counterexample:
  "GetBeneficiary staleRead 5 oldRegistryAddress
       (ToCommonAddress staleRead (FromAddress staleRead (ProviderID (event fakeEvent)))) 0
     = ((fakeBeneficiary, Some (External ''call reverted'')), 0)
   \<and> \<not> isZeroAddress staleRead fakeBeneficiary
   \<and> handleEvent staleRead fakeEvent (NewProviderRegistrar 0) =
     (None,
      \<lparr>once = False, stopChan = Open, registeredIdentities = {''0xprovider''}, world = 0,
       trace = [GetRegistrationStatusCall 137 \<lparr>Address = ''0xprovider''\<rparr>,
                CheckIfRegistrationBountyEligibleCall \<lparr>Address = ''0xprovider''\<rparr>,
                GetRegistryAddressCall 5,
                GetBeneficiaryCall 5 0x15B1281F4E58215B2C3243D864BDF8B9DDDC0DA2 0x1D,
                GetChannelAddressCall 137 \<lparr>Address = ''0xprovider''\<rparr>,
                RegisterIdentityCall ''0xprovider'' 0 None (fakeHex fakeChannel) 137 None,
                SaveCall ''0xprovider'' (fakeHex fakeBeneficiary)]\<rparr>)"
proof -
  have nz: "\<not> isZeroAddress staleRead fakeBeneficiary"
    by (rule fakeBeneficiary_not_zero) (simp add: staleRead_def fakeDeps_def)
  have st: "GetRegistrationStatus staleRead (chainID staleRead) (FromAddress staleRead (ProviderID (event fakeEvent)))
               (world (NewProviderRegistrar 0)) = ((NotRegistered, None), 0)"
    by (simp add: staleRead_def fakeDeps_def NewProviderRegistrar_def)
  have nr: "NotRegistered \<noteq> Registered" by simp
  have el: "if IsTestnet3 (cfg staleRead) then (0::nat) = 0
            else CheckIfRegistrationBountyEligible staleRead (FromAddress staleRead (ProviderID (event fakeEvent))) 0
                   = ((True, None), 0)"
    by (simp add: staleRead_def fakeDeps_def)
  have g: "getBeneficiaryFromOldRegistry staleRead \<lparr>Address = ''0xprovider''\<rparr>
             \<lparr>once = False, stopChan = Open, registeredIdentities = {}, world = 0,
              trace = [GetRegistrationStatusCall 137 \<lparr>Address = ''0xprovider''\<rparr>,
                       CheckIfRegistrationBountyEligibleCall \<lparr>Address = ''0xprovider''\<rparr>]\<rparr>
           = ((fakeBeneficiary, None),
              \<lparr>once = False, stopChan = Open, registeredIdentities = {}, world = 0,
               trace = [GetRegistrationStatusCall 137 \<lparr>Address = ''0xprovider''\<rparr>,
                        CheckIfRegistrationBountyEligibleCall \<lparr>Address = ''0xprovider''\<rparr>,
                        GetRegistryAddressCall 5,
                        GetBeneficiaryCall 5 0x15B1281F4E58215B2C3243D864BDF8B9DDDC0DA2 0x1D]\<rparr>)"
    by (simp add: getBeneficiaryFromOldRegistry_def record_call_def staleRead_def fakeDeps_def l1chainID_def)
  have r: "registerIdentity staleRead fakeEvent \<lparr>Address = ''0xprovider''\<rparr> fakeBeneficiary
              \<lparr>once = False, stopChan = Open, registeredIdentities = {}, world = 0,
               trace = [GetRegistrationStatusCall 137 \<lparr>Address = ''0xprovider''\<rparr>,
                        CheckIfRegistrationBountyEligibleCall \<lparr>Address = ''0xprovider''\<rparr>,
                        GetRegistryAddressCall 5,
                        GetBeneficiaryCall 5 0x15B1281F4E58215B2C3243D864BDF8B9DDDC0DA2 0x1D]\<rparr>
           = (None,
      \<lparr>once = False, stopChan = Open, registeredIdentities = {''0xprovider''}, world = 0,
       trace = [GetRegistrationStatusCall 137 \<lparr>Address = ''0xprovider''\<rparr>,
                CheckIfRegistrationBountyEligibleCall \<lparr>Address = ''0xprovider''\<rparr>,
                GetRegistryAddressCall 5,
                GetBeneficiaryCall 5 0x15B1281F4E58215B2C3243D864BDF8B9DDDC0DA2 0x1D,
                GetChannelAddressCall 137 \<lparr>Address = ''0xprovider''\<rparr>,
                RegisterIdentityCall ''0xprovider'' 0 None (fakeHex fakeChannel) 137 None,
                SaveCall ''0xprovider'' (fakeHex fakeBeneficiary)]\<rparr>)"
    using nz
    by (simp add: registerIdentity_def record_call_def chainID_def l2chainID_def fakeEvent_def
          consumeServiceEvent_def staleRead_def fakeDeps_def)
  have gb: "GetBeneficiary staleRead 5 oldRegistryAddress
       (ToCommonAddress staleRead (FromAddress staleRead (ProviderID (event fakeEvent)))) 0
     = ((fakeBeneficiary, Some (External ''call reverted'')), 0)"
    by (simp add: staleRead_def fakeDeps_def)
  from handleEvent_to_lookup [OF st nr el] g r
  have "handleEvent staleRead fakeEvent (NewProviderRegistrar 0) =
     (None,
      \<lparr>once = False, stopChan = Open, registeredIdentities = {''0xprovider''}, world = 0,
       trace = [GetRegistrationStatusCall 137 \<lparr>Address = ''0xprovider''\<rparr>,
                CheckIfRegistrationBountyEligibleCall \<lparr>Address = ''0xprovider''\<rparr>,
                GetRegistryAddressCall 5,
                GetBeneficiaryCall 5 0x15B1281F4E58215B2C3243D864BDF8B9DDDC0DA2 0x1D,
                GetChannelAddressCall 137 \<lparr>Address = ''0xprovider''\<rparr>,
                RegisterIdentityCall ''0xprovider'' 0 None (fakeHex fakeChannel) 137 None,
                SaveCall ''0xprovider'' (fakeHex fakeBeneficiary)]\<rparr>)"
    by (simp add: staleRead_def fakeDeps_def fakeEvent_def consumeServiceEvent_def
          NewProviderRegistrar_def chainID_def)
  with gb nz show ?thesis by simp
qed

subsection \<open>Retry scheduling\<close>

lemma sint_suc_below:
  fixes x y :: "64 word"
  assumes "word_sless x y"
  shows "sint (x + 1) = sint x + 1"
proof -
  have a: "sint x < sint y" using assms by (simp add: word_sless_alt)
  have b: "sint y < 2 ^ 63" using sint_lt [of y] by simp
  have c: "- (2 ^ 63) \<le> sint x" using sint_ge [of x] by simp
  have "sint (x + 1) = signed_take_bit 63 (sint x + 1)"
    by (simp add: sint_word_ariths)
  also have "\<dots> = sint x + 1"
    using a b c by (intro signed_take_bit_int_eq_self) auto
  finally show ?thesis .
qed

lemma sint_of_nat_small:
  assumes "k < 2 ^ 63"
  shows "sint (of_nat k :: 64 word) = int k"
proof -
  have "(of_nat k :: 64 word) = word_of_int (int k)" by simp
  then have "sint (of_nat k :: 64 word) = signed_take_bit 63 (int k)"
    by (simp only: sint_sbintrunc') simp
  also have "\<dots> = int k"
    using assms by (intro signed_take_bit_int_eq_self) auto
  finally show ?thesis .
qed

lemma sless_of_nat:
  "k < n \<Longrightarrow> n < 2 ^ 63 \<Longrightarrow> word_sless (of_nat k :: 64 word) (of_nat n)"
  by (simp add: word_sless_alt sint_of_nat_small)

lemma start_queue_append:
  "start d (map QueueCase evs @ ys) s =
     (case start d (map QueueCase evs) s of
        (Blocked, s1) \<Rightarrow> start d ys s1
      | (Returned r, s1) \<Rightarrow> (Returned r, s1))"
proof (induction evs arbitrary: s)
  case Nil
  show ?case by simp
next
  case (Cons ev evs)
  obtain r s1 where h: "handleEventWithRetries d ev s = (r, s1)"
    by (cases "handleEventWithRetries d ev s")
  show ?case
  proof (cases "needsHandling s ev")
    case False
    then show ?thesis by (simp add: Cons.IH)
  next
    case True
    with h show ?thesis by (cases r) (simp_all add: Cons.IH)
  qed
qed

lemma requeued_Suc: "requeued qe (Suc n) = requeued qe n @ [qe\<lparr>retries := retries qe + of_nat n\<rparr>]"
  by (simp add: requeued_def)

lemma tl_requeued:
  "tl (requeued qe (Suc n)) = map (\<lambda>k. qe\<lparr>retries := retries qe + of_nat (Suc k)\<rparr>) [0..<n]"
proof -
  have "tl (requeued qe (Suc n)) = map (\<lambda>k. qe\<lparr>retries := retries qe + of_nat k\<rparr>) (tl [0..<Suc n])"
    by (simp only: requeued_def map_tl)
  also have "tl [0..<Suc n] = map Suc [0..<n]"
    by (simp only: map_Suc_upt) (simp add: upt_conv_Cons del: upt_Suc)
  finally show ?thesis by (simp add: comp_def)
qed

lemma getBeneficiaryFromOldRegistry_registered:
  "registeredIdentities (snd (getBeneficiaryFromOldRegistry d i s)) = registeredIdentities s"
  by (simp add: getBeneficiaryFromOldRegistry_def split_def split: option.splits)

lemma registerIdentity_fail:
  "fst (registerIdentity d qe i b s) \<noteq> None \<Longrightarrow>
     registeredIdentities (snd (registerIdentity d qe i b s)) = registeredIdentities s"
  by (simp add: registerIdentity_def split_def Let_def split: option.splits if_splits)

lemma registerIdentityIfEligible_fail:
  "fst (registerIdentityIfEligible d qe s) \<noteq> None \<Longrightarrow>
     registeredIdentities (snd (registerIdentityIfEligible d qe s)) = registeredIdentities s"
  by (simp add: registerIdentityIfEligible_def split_def Let_def registerIdentity_fail
        getBeneficiaryFromOldRegistry_registered split: option.splits if_splits)

lemma handleEvent_fail:
  "fst (handleEvent d qe s) \<noteq> None \<Longrightarrow>
     registeredIdentities (snd (handleEvent d qe s)) = registeredIdentities s"
  by (simp add: handleEvent_def split_def registerIdentityIfEligible_fail
        split: option.splits RegistrationStatus.splits if_splits)

lemma handleEvent_goroutines:
  "filter isGoroutine (trace (snd (handleEvent d qe s))) = filter isGoroutine (trace s)"
  by (rule handleEvent_filter) (auto elim: isCall.elims)

lemma retry_step:
  assumes "fst (handleEvent d qe s) = Some err"
    and "word_sless (retries qe) (MaxRetries (cfg d))"
  shows "handleEventWithRetries d qe s =
           (None, (snd (handleEvent d qe s))
                    \<lparr>trace := trace (snd (handleEvent d qe s)) @ [GoDelayedRequeue (qe\<lparr>retries := retries qe + 1\<rparr>)]\<rparr>)"
  using assms by (simp add: handleEventWithRetries_def split_def)

lemma retry_prefix:
  assumes run: "Status (event qe) = Running" "ProviderID (event qe) \<notin> registeredIdentities s"
    and fresh: "retries qe = 0"
    and max: "MaxRetries (cfg d) = of_nat N" "N < 2 ^ 63"
    and fails: "\<forall>k<N. fst (handleEvent d (qe\<lparr>retries := of_nat k\<rparr>)
                         (snd (start d (map QueueCase (requeued qe k)) s))) \<noteq> None"
    and "k \<le> N"
  shows "fst (start d (map QueueCase (requeued qe k)) s) = Blocked
       \<and> registeredIdentities (snd (start d (map QueueCase (requeued qe k)) s)) = registeredIdentities s
       \<and> filter isGoroutine (trace (snd (start d (map QueueCase (requeued qe k)) s)))
           = filter isGoroutine (trace s) @ map (\<lambda>j. GoDelayedRequeue (qe\<lparr>retries := of_nat (Suc j)\<rparr>)) [0..<k]"
  using \<open>k \<le> N\<close>
proof (induction k)
  case 0
  show ?case by (simp add: requeued_def)
next
  case (Suc k)
  let ?sk = "snd (start d (map QueueCase (requeued qe k)) s)"
  let ?ek = "qe\<lparr>retries := of_nat k\<rparr>"
  from Suc have k: "k < N" and
    ih: "fst (start d (map QueueCase (requeued qe k)) s) = Blocked"
        "registeredIdentities ?sk = registeredIdentities s"
        "filter isGoroutine (trace ?sk)
           = filter isGoroutine (trace s) @ map (\<lambda>j. GoDelayedRequeue (qe\<lparr>retries := of_nat (Suc j)\<rparr>)) [0..<k]"
    by simp_all
  have split: "start d (map QueueCase (requeued qe (Suc k))) s = start d [QueueCase ?ek] ?sk"
    using start_queue_append [of d "requeued qe k" "[QueueCase ?ek]" s] ih(1) fresh
    by (simp add: requeued_Suc split_def del: start.simps)
  have admit: "needsHandling ?sk ?ek"
    using run ih(2) by (simp add: needsHandling_def)
  from fails k obtain err where err: "fst (handleEvent d ?ek ?sk) = Some err"
    by auto
  have below: "word_sless (retries ?ek) (MaxRetries (cfg d))"
    using k max by (simp add: sless_of_nat)
  let ?s1 = "snd (handleEvent d ?ek ?sk)"
  have step: "start d [QueueCase ?ek] ?sk =
      (Blocked, ?s1\<lparr>trace := trace ?s1 @ [GoDelayedRequeue (?ek\<lparr>retries := retries ?ek + 1\<rparr>)]\<rparr>)"
    using admit retry_step [OF err below] by simp
  have reg: "registeredIdentities ?s1 = registeredIdentities s"
    using handleEvent_fail [of d ?ek ?sk] err ih(2) by simp
  have go: "filter isGoroutine (trace ?s1) = filter isGoroutine (trace ?sk)"
    by (rule handleEvent_goroutines)
  show ?case
    using split step reg go ih(3) by simp
qed

lemma retry_final:
  assumes run: "Status (event qe) = Running" "ProviderID (event qe) \<notin> registeredIdentities s"
    and fresh: "retries qe = 0"
    and max: "MaxRetries (cfg d) = of_nat N" "N < 2 ^ 63"
    and fails: "\<forall>k<N. fst (handleEvent d (qe\<lparr>retries := of_nat k\<rparr>)
                         (snd (start d (map QueueCase (requeued qe k)) s))) \<noteq> None"
    and succeeds: "fst (handleEvent d (qe\<lparr>retries := of_nat N\<rparr>)
                         (snd (start d (map QueueCase (requeued qe N)) s))) = None"
  shows "fst (start d (map QueueCase (requeued qe (Suc N))) s) = Blocked
       \<and> filter isGoroutine (trace (snd (start d (map QueueCase (requeued qe (Suc N))) s)))
           = filter isGoroutine (trace s) @ map GoDelayedRequeue (tl (requeued qe (Suc N)))
       \<and> length (tl (requeued qe (Suc N))) = N"
proof -
  let ?sN = "snd (start d (map QueueCase (requeued qe N)) s)"
  let ?eN = "qe\<lparr>retries := of_nat N\<rparr>"
  from retry_prefix [OF run fresh max fails order_refl]
  have ih: "fst (start d (map QueueCase (requeued qe N)) s) = Blocked"
        "registeredIdentities ?sN = registeredIdentities s"
        "filter isGoroutine (trace ?sN)
           = filter isGoroutine (trace s) @ map (\<lambda>j. GoDelayedRequeue (qe\<lparr>retries := of_nat (Suc j)\<rparr>)) [0..<N]"
    by simp_all
  have split: "start d (map QueueCase (requeued qe (Suc N))) s = start d [QueueCase ?eN] ?sN"
    using start_queue_append [of d "requeued qe N" "[QueueCase ?eN]" s] ih(1) fresh
    by (simp add: requeued_Suc split_def del: start.simps)
  have admit: "needsHandling ?sN ?eN"
    using run ih(2) by (simp add: needsHandling_def)
  have step: "start d [QueueCase ?eN] ?sN = (Blocked, snd (handleEvent d ?eN ?sN))"
    using admit succeeds by (simp add: handleEventWithRetries_def split_def)
  have go: "filter isGoroutine (trace (snd (handleEvent d ?eN ?sN))) = filter isGoroutine (trace ?sN)"
    by (rule handleEvent_goroutines)
  have tl: "map GoDelayedRequeue (tl (requeued qe (Suc N)))
              = map (\<lambda>j. GoDelayedRequeue (qe\<lparr>retries := of_nat (Suc j)\<rparr>)) [0..<N]"
    using fresh by (simp only: tl_requeued) (simp add: comp_def)
  have len: "length (tl (requeued qe (Suc N))) = N"
    by (simp only: tl_requeued) simp
  show ?thesis
    using split step go ih(3) tl len by simp
qed

text \<open>
  C8. When the pipeline fails for an event whose retry count is below the configured
  maximum, \<open>handleEventWithRetries\<close> returns no error and launches \<open>delayedRequeue\<close> for
  the event with its retry count raised by one (the count does not wrap); the goroutine,
  when its timer fires first, sends that event to the queue after \<open>DelayBetweenRetries\<close>;
  the worker loop goes on with the next \<open>select\<close>. Consequently, for a fresh event of a
  running service with the maximum at \<open>N\<close>: if the pipeline fails at each of the first \<open>N\<close>
  attempts and succeeds at the next one, the worker, receiving the event and then each
  re-enqueued copy, ends blocked in its \<open>select\<close> with no error returned, and the
  goroutines launched on the way are exactly the \<open>N\<close> requeues with retry counts 1 to \<open>N\<close>.
\<close>

theorem failed_attempt_is_requeued:
  "(fst (handleEvent d qe s) = Some err \<and> word_sless (retries qe) (MaxRetries (cfg d)) \<longrightarrow>
      handleEventWithRetries d qe s =
        (None, (snd (handleEvent d qe s))
                 \<lparr>trace := trace (snd (handleEvent d qe s)) @ [GoDelayedRequeue (qe\<lparr>retries := retries qe + 1\<rparr>)]\<rparr>)
      \<and> sint (retries qe + 1) = sint (retries qe) + 1
      \<and> delayedRequeue d (qe\<lparr>retries := retries qe + 1\<rparr>) TimerFirst
          = SentAfter (DelayBetweenRetries (cfg d)) (qe\<lparr>retries := retries qe + 1\<rparr>)
      \<and> (needsHandling s qe \<longrightarrow>
           start d (QueueCase qe # rest) s =
             start d rest ((snd (handleEvent d qe s))
                 \<lparr>trace := trace (snd (handleEvent d qe s)) @ [GoDelayedRequeue (qe\<lparr>retries := retries qe + 1\<rparr>)]\<rparr>)))
   \<and> (Status (event qe) = Running \<and> ProviderID (event qe) \<notin> registeredIdentities s \<and> retries qe = 0
        \<and> MaxRetries (cfg d) = of_nat N \<and> N < 2 ^ 63
        \<and> (\<forall>k<N. fst (handleEvent d (qe\<lparr>retries := of_nat k\<rparr>)
                         (snd (start d (map QueueCase (requeued qe k)) s))) \<noteq> None)
        \<and> fst (handleEvent d (qe\<lparr>retries := of_nat N\<rparr>)
                         (snd (start d (map QueueCase (requeued qe N)) s))) = None \<longrightarrow>
      fst (start d (map QueueCase (requeued qe (Suc N))) s) = Blocked
      \<and> filter isGoroutine (trace (snd (start d (map QueueCase (requeued qe (Suc N))) s)))
          = filter isGoroutine (trace s) @ map GoDelayedRequeue (tl (requeued qe (Suc N)))
      \<and> length (tl (requeued qe (Suc N))) = N)"
proof (intro conjI impI)
  assume a: "fst (handleEvent d qe s) = Some err \<and> word_sless (retries qe) (MaxRetries (cfg d))"
  then show "handleEventWithRetries d qe s =
        (None, (snd (handleEvent d qe s))
                 \<lparr>trace := trace (snd (handleEvent d qe s)) @ [GoDelayedRequeue (qe\<lparr>retries := retries qe + 1\<rparr>)]\<rparr>)"
    by (simp add: retry_step)
  from a have "word_sless (retries qe) (MaxRetries (cfg d))" by simp
  then show "sint (retries qe + 1) = sint (retries qe) + 1"
    by (rule sint_suc_below)
  show "delayedRequeue d (qe\<lparr>retries := retries qe + 1\<rparr>) TimerFirst
          = SentAfter (DelayBetweenRetries (cfg d)) (qe\<lparr>retries := retries qe + 1\<rparr>)"
    by (simp add: delayedRequeue_def)
  assume "needsHandling s qe"
  with a show "start d (QueueCase qe # rest) s =
             start d rest ((snd (handleEvent d qe s))
                 \<lparr>trace := trace (snd (handleEvent d qe s)) @ [GoDelayedRequeue (qe\<lparr>retries := retries qe + 1\<rparr>)]\<rparr>)"
    by (simp add: retry_step)
next
  assume b: "Status (event qe) = Running \<and> ProviderID (event qe) \<notin> registeredIdentities s \<and> retries qe = 0
        \<and> MaxRetries (cfg d) = of_nat N \<and> N < 2 ^ 63
        \<and> (\<forall>k<N. fst (handleEvent d (qe\<lparr>retries := of_nat k\<rparr>)
                         (snd (start d (map QueueCase (requeued qe k)) s))) \<noteq> None)
        \<and> fst (handleEvent d (qe\<lparr>retries := of_nat N\<rparr>)
                         (snd (start d (map QueueCase (requeued qe N)) s))) = None"
  have f: "fst (start d (map QueueCase (requeued qe (Suc N))) s) = Blocked
       \<and> filter isGoroutine (trace (snd (start d (map QueueCase (requeued qe (Suc N))) s)))
           = filter isGoroutine (trace s) @ map GoDelayedRequeue (tl (requeued qe (Suc N)))
       \<and> length (tl (requeued qe (Suc N))) = N"
    by (rule retry_final) (use b in blast)+
  from f show "fst (start d (map QueueCase (requeued qe (Suc N))) s) = Blocked" by blast
  from f show "filter isGoroutine (trace (snd (start d (map QueueCase (requeued qe (Suc N))) s)))
          = filter isGoroutine (trace s) @ map GoDelayedRequeue (tl (requeued qe (Suc N)))" by blast
  from f show "length (tl (requeued qe (Suc N))) = N" by blast
qed

lemma fake_first_attempts:
  "start fakeDeps [QueueCase fakeEvent] (NewProviderRegistrar 2) =
     (Blocked,
      \<lparr>once = False, stopChan = Open, registeredIdentities = {}, world = 1,
       trace = [GetRegistrationStatusCall 137 \<lparr>Address = ''0xprovider''\<rparr>,
                GoDelayedRequeue (fakeEvent\<lparr>retries := 1\<rparr>)]\<rparr>)"
  "start fakeDeps [QueueCase fakeEvent, QueueCase (fakeEvent\<lparr>retries := 1\<rparr>)] (NewProviderRegistrar 2) =
     (Blocked,
      \<lparr>once = False, stopChan = Open, registeredIdentities = {}, world = 0,
       trace = [GetRegistrationStatusCall 137 \<lparr>Address = ''0xprovider''\<rparr>,
                GoDelayedRequeue (fakeEvent\<lparr>retries := 1\<rparr>),
                GetRegistrationStatusCall 137 \<lparr>Address = ''0xprovider''\<rparr>,
                GoDelayedRequeue (fakeEvent\<lparr>retries := 2\<rparr>)]\<rparr>)"
  by (simp_all add: needsHandling_def handleEventWithRetries_def handleEvent_def record_call_def
        fakeDeps_def fakeEvent_def consumeServiceEvent_def NewProviderRegistrar_def Running_def
        chainID_def word_sless_alt)

lemma fake_third_attempt:
  "handleEvent fakeDeps (fakeEvent\<lparr>retries := 2\<rparr>)
      \<lparr>once = False, stopChan = Open, registeredIdentities = {}, world = 0, trace = t\<rparr> =
     (None,
      \<lparr>once = False, stopChan = Open, registeredIdentities = {''0xprovider''}, world = 0,
       trace = t @ [GetRegistrationStatusCall 137 \<lparr>Address = ''0xprovider''\<rparr>,
                CheckIfRegistrationBountyEligibleCall \<lparr>Address = ''0xprovider''\<rparr>,
                GetRegistryAddressCall 5,
                GetBeneficiaryCall 5 0x15B1281F4E58215B2C3243D864BDF8B9DDDC0DA2 0x1D,
                GetChannelAddressCall 137 \<lparr>Address = ''0xprovider''\<rparr>,
                RegisterIdentityCall ''0xprovider'' 0 None (fakeHex fakeChannel) 137 None,
                SaveCall ''0xprovider'' (fakeHex fakeBeneficiary)]\<rparr>)"
proof -
  have nz: "\<not> isZeroAddress fakeDeps fakeBeneficiary"
    by (rule fakeBeneficiary_not_zero) (simp add: fakeDeps_def)
  then show ?thesis
    by (simp add: handleEvent_def registerIdentityIfEligible_def getBeneficiaryFromOldRegistry_def
          registerIdentity_def record_call_def chainID_def l1chainID_def l2chainID_def Let_def
          fakeEvent_def consumeServiceEvent_def fakeDeps_def)
qed

theorem failed_attempt_is_requeued_witness:
  "handleEventWithRetries fakeDeps fakeEvent (NewProviderRegistrar 2) =
     (None,
      \<lparr>once = False, stopChan = Open, registeredIdentities = {}, world = 1,
       trace = [GetRegistrationStatusCall 137 \<lparr>Address = ''0xprovider''\<rparr>,
                GoDelayedRequeue (fakeEvent\<lparr>retries := 1\<rparr>)]\<rparr>)
   \<and> delayedRequeue fakeDeps (fakeEvent\<lparr>retries := 1\<rparr>) TimerFirst = SentAfter 10 (fakeEvent\<lparr>retries := 1\<rparr>)
   \<and> fst (start fakeDeps (map QueueCase (requeued fakeEvent (Suc 2))) (NewProviderRegistrar 2)) = Blocked
   \<and> filter isGoroutine (trace (snd (start fakeDeps (map QueueCase (requeued fakeEvent (Suc 2))) (NewProviderRegistrar 2))))
       = [GoDelayedRequeue (fakeEvent\<lparr>retries := 1\<rparr>), GoDelayedRequeue (fakeEvent\<lparr>retries := 2\<rparr>)]"
proof -
  have r0: "requeued fakeEvent 0 = []" "requeued fakeEvent (Suc 0) = [fakeEvent]"
      "requeued fakeEvent 2 = [fakeEvent, fakeEvent\<lparr>retries := 1\<rparr>]"
      "requeued fakeEvent (Suc 2) = [fakeEvent, fakeEvent\<lparr>retries := 1\<rparr>, fakeEvent\<lparr>retries := 2\<rparr>]"
    by (simp_all add: requeued_def fakeEvent_def consumeServiceEvent_def numeral_2_eq_2)
  have e0: "fst (handleEvent fakeDeps fakeEvent (NewProviderRegistrar 2))
              = Some (Wrap (External ''rpc unavailable'') ''could not check registration status on BC'')"
    by (simp add: handleEvent_def record_call_def fakeDeps_def NewProviderRegistrar_def)
  have e1: "fst (handleEvent fakeDeps (fakeEvent\<lparr>retries := 1\<rparr>)
                  (snd (start fakeDeps [QueueCase fakeEvent] (NewProviderRegistrar 2)))) \<noteq> None"
    by (simp only: fake_first_attempts snd_conv) (simp add: handleEvent_def record_call_def fakeDeps_def)
  have below: "word_sless (retries fakeEvent) (MaxRetries (cfg fakeDeps))"
    by (simp add: fakeDeps_def fakeEvent_def consumeServiceEvent_def word_sless_alt)
  have admit: "needsHandling (NewProviderRegistrar (2::nat)) fakeEvent"
    by (simp add: needsHandling_def fakeEvent_def consumeServiceEvent_def Running_def NewProviderRegistrar_def)
  have run: "Status (event fakeEvent) = Running"
      "ProviderID (event fakeEvent) \<notin> registeredIdentities (NewProviderRegistrar (2::nat))"
      "retries fakeEvent = 0" "MaxRetries (cfg fakeDeps) = of_nat 2" "(2::nat) < 2 ^ 63"
    by (simp_all add: fakeDeps_def fakeEvent_def consumeServiceEvent_def Running_def NewProviderRegistrar_def)
  have same: "fakeEvent\<lparr>retries := 0\<rparr> = fakeEvent"
    by (simp add: fakeEvent_def consumeServiceEvent_def)
  have fails: "\<forall>k<2. fst (handleEvent fakeDeps (fakeEvent\<lparr>retries := of_nat k\<rparr>)
                 (snd (start fakeDeps (map QueueCase (requeued fakeEvent k)) (NewProviderRegistrar 2)))) \<noteq> None"
  proof (intro allI impI)
    fix k :: nat
    assume "k < 2"
    then have "k = 0 \<or> k = Suc 0" by arith
    then show "fst (handleEvent fakeDeps (fakeEvent\<lparr>retries := of_nat k\<rparr>)
                 (snd (start fakeDeps (map QueueCase (requeued fakeEvent k)) (NewProviderRegistrar 2)))) \<noteq> None"
    proof
      assume "k = 0"
      with e0 same show ?thesis by (simp add: r0)
    next
      assume "k = Suc 0"
      with e1 show ?thesis by (simp add: r0 del: start.simps)
    qed
  qed
  have succeeds: "fst (handleEvent fakeDeps (fakeEvent\<lparr>retries := of_nat 2\<rparr>)
                 (snd (start fakeDeps (map QueueCase (requeued fakeEvent 2)) (NewProviderRegistrar 2)))) = None"
    by (simp only: r0 list.map fake_first_attempts snd_conv) (simp add: fake_third_attempt)
  have d: "DelayBetweenRetries (cfg fakeDeps) = 10" by (simp add: fakeDeps_def)
  have h0: "handleEvent fakeDeps fakeEvent (NewProviderRegistrar 2) =
      (Some (Wrap (External ''rpc unavailable'') ''could not check registration status on BC''),
       \<lparr>once = False, stopChan = Open, registeredIdentities = {}, world = 1,
        trace = [GetRegistrationStatusCall 137 \<lparr>Address = ''0xprovider''\<rparr>]\<rparr>)"
    by (simp add: handleEvent_def record_call_def fakeDeps_def NewProviderRegistrar_def chainID_def
          fakeEvent_def consumeServiceEvent_def)
  note T = failed_attempt_is_requeued [of fakeDeps fakeEvent "NewProviderRegistrar 2"
      "Wrap (External ''rpc unavailable'') ''could not check registration status on BC''" "[]" 2]
  from T e0 below
  have A: "handleEventWithRetries fakeDeps fakeEvent (NewProviderRegistrar 2) =
        (None, (snd (handleEvent fakeDeps fakeEvent (NewProviderRegistrar 2)))
                 \<lparr>trace := trace (snd (handleEvent fakeDeps fakeEvent (NewProviderRegistrar 2)))
                    @ [GoDelayedRequeue (fakeEvent\<lparr>retries := retries fakeEvent + 1\<rparr>)]\<rparr>)"
    and D: "delayedRequeue fakeDeps (fakeEvent\<lparr>retries := retries fakeEvent + 1\<rparr>) TimerFirst
          = SentAfter (DelayBetweenRetries (cfg fakeDeps)) (fakeEvent\<lparr>retries := retries fakeEvent + 1\<rparr>)"
    by blast+
  from T run fails succeeds
  have S: "fst (start fakeDeps (map QueueCase (requeued fakeEvent (Suc 2))) (NewProviderRegistrar 2)) = Blocked"
    and G: "filter isGoroutine (trace (snd (start fakeDeps (map QueueCase (requeued fakeEvent (Suc 2))) (NewProviderRegistrar 2))))
          = filter isGoroutine (trace (NewProviderRegistrar (2::nat))) @ map GoDelayedRequeue (tl (requeued fakeEvent (Suc 2)))"
    by blast+
  have c1: "handleEventWithRetries fakeDeps fakeEvent (NewProviderRegistrar 2) =
     (None,
      \<lparr>once = False, stopChan = Open, registeredIdentities = {}, world = 1,
       trace = [GetRegistrationStatusCall 137 \<lparr>Address = ''0xprovider''\<rparr>,
                GoDelayedRequeue (fakeEvent\<lparr>retries := 1\<rparr>)]\<rparr>)"
    by (simp only: A h0 snd_conv run(3)) simp
  have c2: "delayedRequeue fakeDeps (fakeEvent\<lparr>retries := 1\<rparr>) TimerFirst = SentAfter 10 (fakeEvent\<lparr>retries := 1\<rparr>)"
    using D by (simp only: d run(3)) simp
  have c4: "filter isGoroutine (trace (snd (start fakeDeps (map QueueCase (requeued fakeEvent (Suc 2))) (NewProviderRegistrar 2))))
       = [GoDelayedRequeue (fakeEvent\<lparr>retries := 1\<rparr>), GoDelayedRequeue (fakeEvent\<lparr>retries := 2\<rparr>)]"
    by (subst G) (simp only: r0(4), simp add: NewProviderRegistrar_def)
  from c1 c2 S c4 show ?thesis by blast
qed

end
